theory Spec2Isabelle
  imports Complex_Main "HOL-Library.Word"
begin

unbundle bit_operations_syntax

section \<open>MAX31865 RTD front end (src/src/rtd/max31865.ts)\<close>

text \<open>
  The SPI bus is a capability handed to the class: a transport takes the bytes of the
  send buffer and the state of whatever sits on the bus, and yields either the error the
  callback receives or the bytes clocked in. Every exchange and every delay is appended
  to a log, so the order of the bus traffic can be stated.

  JavaScript numbers that hold register contents are modelled as \<open>int\<close>: all values
  stay below \<open>2 ^ 16\<close>, where the 32-bit operators \<open>|\<close>, \<open>&\<close>, \<open>~\<close>, \<open><<\<close> and
  \<open>>>\<close> agree with the operations on \<open>int\<close>. Numbers that hold resistances and
  temperatures are modelled as \<open>real\<close> (exact arithmetic, no rounding); where the
  source produces NaN or an infinity on finite input, by the square root of a negative
  number or a division by zero, the case is written out as a branch.
\<close>

type_synonym byte = "8 word"

text \<open>A JavaScript \<open>Error\<close> object, with its message.\<close>

datatype error = Error string

datatype event = Transfer "byte list" "error + byte list" | Delay nat

record 'd world =
  dev :: 'd
  log :: "event list"

type_synonym 'd transport = "'d \<Rightarrow> byte list \<Rightarrow> (error + byte list) \<times> 'd"

type_synonym ('d, 'a) io = "'d world \<Rightarrow> (error + 'a) \<times> 'd world"

definition resolve :: "'a \<Rightarrow> ('d, 'a) io" where
  "resolve a w = (Inr a, w)"

definition await :: "('d, 'a) io \<Rightarrow> ('a \<Rightarrow> ('d, 'b) io) \<Rightarrow> ('d, 'b) io" where
  "await m f w = (case m w of (Inl e, w') \<Rightarrow> (Inl e, w') | (Inr a, w') \<Rightarrow> f a w')"

text \<open>\<open>Buffer.alloc n\<close> filled with what the bus delivered.\<close>

definition receiveBuffer :: "nat \<Rightarrow> byte list \<Rightarrow> byte list" where
  "receiveBuffer n rx = take n rx @ replicate (n - length rx) 0"

definition transfer :: "'d transport \<Rightarrow> byte list \<Rightarrow> ('d, byte list) io" where
  "transfer T sendBuffer w =
     (case T (dev w) sendBuffer of
        (r, d') \<Rightarrow> (r, w\<lparr>dev := d', log := log w @ [Transfer sendBuffer r]\<rparr>))"

datatype MAX31865ReadRegister =
  CONFIG | RTDMSBs | RTDLSBs | HighFaultThreshMSB | HighFaultThreshLSB
  | LowFaultThreshMSB | LowFaultThreshLSB | FaultStatue

fun read_address :: "MAX31865ReadRegister \<Rightarrow> byte" where
  "read_address CONFIG = 0x00"
| "read_address RTDMSBs = 0x01"
| "read_address RTDLSBs = 0x02"
| "read_address HighFaultThreshMSB = 0x03"
| "read_address HighFaultThreshLSB = 0x04"
| "read_address LowFaultThreshMSB = 0x05"
| "read_address LowFaultThreshLSB = 0x06"
| "read_address FaultStatue = 0x07"

datatype MAX31865WriteRegister =
  WCONFIG | WHighFaultThreshMSB | WHighFaultThreshLSB
  | WLowFaultThreshMSB | WLowFaultThreshLSB

fun write_address :: "MAX31865WriteRegister \<Rightarrow> byte" where
  "write_address WCONFIG = 0x80"
| "write_address WHighFaultThreshMSB = 0x83"
| "write_address WHighFaultThreshLSB = 0x84"
| "write_address WLowFaultThreshMSB = 0x85"
| "write_address WLowFaultThreshLSB = 0x86"

definition delay :: "nat \<Rightarrow> ('d, unit) io" where
  "delay ms w = (Inr (), w\<lparr>log := log w @ [Delay ms]\<rparr>)"

definition readUint8 :: "'d transport \<Rightarrow> MAX31865ReadRegister \<Rightarrow> ('d, int) io" where
  "readUint8 T register =
     await (transfer T [read_address register, 0x00])
       (\<lambda>res. resolve (uint (receiveBuffer 2 res ! 1)))"

definition readUint16 :: "'d transport \<Rightarrow> MAX31865ReadRegister \<Rightarrow> ('d, int) io" where
  "readUint16 T register =
     await (transfer T [read_address register, 0x00, 0x00])
       (\<lambda>res. let msb = uint (receiveBuffer 3 res ! 1);
                   lsb = uint (receiveBuffer 3 res ! 2)
               in resolve (push_bit 8 msb OR lsb))"

definition writeUint8 :: "'d transport \<Rightarrow> MAX31865WriteRegister \<Rightarrow> int \<Rightarrow> ('d, unit) io" where
  "writeUint8 T register data =
     (let byte = data AND 0x08
      in await (transfer T [write_address register, word_of_int byte])
           (\<lambda>_. resolve ()))"

definition toggleConfigBit :: "'d transport \<Rightarrow> bool \<Rightarrow> int \<Rightarrow> ('d, unit) io" where
  "toggleConfigBit T predicate bitLocation =
     await (readUint8 T CONFIG)
       (\<lambda>readConfig.
          writeUint8 T WCONFIG
            (if predicate then readConfig OR bitLocation
             else readConfig AND NOT bitLocation))"

definition setWireConfig :: "'d transport \<Rightarrow> bool \<Rightarrow> ('d, unit) io" where
  "setWireConfig T threeWire = toggleConfigBit T threeWire 0x10"

definition set50Hz :: "'d transport \<Rightarrow> bool \<Rightarrow> ('d, unit) io" where
  "set50Hz T setTo50 = toggleConfigBit T setTo50 0x01"

definition clearFaultStatus :: "'d transport \<Rightarrow> ('d, unit) io" where
  "clearFaultStatus T = toggleConfigBit T True 0x02"

definition setOneShot :: "'d transport \<Rightarrow> ('d, unit) io" where
  "setOneShot T = toggleConfigBit T True 0x20"

definition setAutoConversion :: "'d transport \<Rightarrow> bool \<Rightarrow> ('d, unit) io" where
  "setAutoConversion T autoConvert = toggleConfigBit T autoConvert 0x40"

definition setBiasVoltage :: "'d transport \<Rightarrow> bool \<Rightarrow> ('d, unit) io" where
  "setBiasVoltage T biasOn = toggleConfigBit T biasOn 0x80"

definition readRTD :: "'d transport \<Rightarrow> ('d, int) io" where
  "readRTD T =
     await (clearFaultStatus T) (\<lambda>_.
     await (setBiasVoltage T True) (\<lambda>_.
     await (delay 10) (\<lambda>_.
     await (setOneShot T) (\<lambda>_.
     await (delay 65) (\<lambda>_.
     await (readUint16 T RTDMSBs) (\<lambda>rawValue.
     resolve (drop_bit 1 rawValue)))))))"

definition rtdA :: real where
  "rtdA = 39083 / 10000000"

definition rtdB :: real where
  "rtdB = - 5775 / 10000000000"

definition coeffs5thOrder :: "real list" where
  "coeffs5thOrder =
     [15243 / 100000000000000, - 28183 / 1000000000000, - 4826 / 1000000000,
      25859 / 10000000, 22228 / 10000, - 24202 / 100]"

text \<open>
  Lines 130 to 153 of \<open>getTemperature\<close>: the arithmetic on the raw code.
  \<open>Math.sqrt\<close> of a negative number is NaN, NaN survives the addition and the
  division, and \<open>NaN >= 0\<close> is false: then the polynomial is returned. With a
  nominal resistance of zero the divisions by it leave only infinities and NaN, and the
  result is not a number: \<open>None\<close>.
\<close>

definition temperature_of_raw :: "real \<Rightarrow> real \<Rightarrow> int \<Rightarrow> real option" where
  "temperature_of_raw R0 Rref raw =
     (if R0 = 0 then None
      else
        (let A = rtdA; B = rtdB;
             Rt = (real_of_int raw / 32768) * Rref;
             z1 = - A;
             z2 = A * A - 4 * B;
             z3 = (4 * B) / R0;
             z4 = 2 * B;
             t1 = z2 + z3 * Rt;
             t = (sqrt t1 + z1) / z4;
             RRt = (Rt / R0) * 100;
             cs = coeffs5thOrder
         in if 0 \<le> t1 \<and> t \<ge> 0 then Some t
            else Some (foldl (\<lambda>res c. res * RRt + c) (cs ! 0) (drop 1 cs))))"

definition getTemperature :: "real \<Rightarrow> real \<Rightarrow> 'd transport \<Rightarrow> ('d, real option) io" where
  "getTemperature R0 Rref T =
     await (readRTD T) (\<lambda>raw. resolve (temperature_of_raw R0 Rref raw))"

text \<open>
  A register file standing in for the chip, used only as a concrete transport in the
  examples below: a read of address \<open>0x00\<close>, \<open>0x01\<close> or \<open>0x07\<close> answers with the
  register's content after the turnaround byte, a write to \<open>0x80\<close> stores the data
  byte in the configuration register, and a bus marked broken fails every exchange.
\<close>

record chip =
  config_reg :: byte
  rtd_msb :: byte
  rtd_lsb :: byte
  fault_reg :: byte
  broken :: bool

definition chip_transport :: "chip transport" where
  "chip_transport c sendBuffer =
     (if broken c then (Inl (Error ''EIO''), c)
      else case sendBuffer of
        [] \<Rightarrow> (Inr [], c)
      | a # rest \<Rightarrow>
          if a = 0x00 then (Inr [0, config_reg c], c)
          else if a = 0x01 then (Inr [0, rtd_msb c, rtd_lsb c], c)
          else if a = 0x07 then (Inr [0, fault_reg c], c)
          else if a = 0x80 then (Inr [0, 0], c\<lparr>config_reg := (case rest of [] \<Rightarrow> 0 | b # _ \<Rightarrow> b)\<rparr>)
          else (Inr (replicate (length sendBuffer) 0), c))"

definition new_events :: "'d world \<Rightarrow> 'd world \<Rightarrow> event list" where
  "new_events w w' = drop (length (log w)) (log w')"

fun failed :: "event \<Rightarrow> bool" where
  "failed (Transfer _ (Inl _)) = True"
| "failed _ = False"


fun addresses :: "byte \<Rightarrow> event \<Rightarrow> bool" where
  "addresses a (Transfer sendBuffer _) = (case sendBuffer of [] \<Rightarrow> False | b # _ \<Rightarrow> b = a)"
| "addresses a (Delay _) = False"

definition chip_minus50 :: chip where
  "chip_minus50 =
     \<lparr>config_reg = 0x00, rtd_msb = 0x2F, rtd_lsb = 0xD0, fault_reg = 0x00, broken = False\<rparr>"

definition chip_faulted :: chip where
  "chip_faulted =
     \<lparr>config_reg = 0x00, rtd_msb = 0x2F, rtd_lsb = 0xD1, fault_reg = 0x04, broken = False\<rparr>"

definition chip_code1 :: chip where
  "chip_code1 =
     \<lparr>config_reg = 0x00, rtd_msb = 0x00, rtd_lsb = 0x03, fault_reg = 0x04, broken = False\<rparr>"

section \<open>PID controller (PIDController)\<close>

text \<open>
  Numbers are reals, the clock reading of \<open>Date.now()\<close> is an \<open>int\<close> of
  milliseconds handed to each call. Where the source divides by zero the IEEE result is
  an infinity or NaN, which no real stands for: the model then has no value
  (\<open>None\<close>).
\<close>

definition clamp :: "real \<Rightarrow> real \<Rightarrow> real \<Rightarrow> real" where
  "clamp v lo hi = min (max v lo) hi"

record PIDController =
  Kp :: real
  Ki :: real
  Kd :: real
  lastTime :: int
  sumT :: real
  tempSetPoint :: real
  maxIntegrator :: real

definition new_PIDController :: "real \<Rightarrow> real \<Rightarrow> real \<Rightarrow> PIDController option" where
  "new_PIDController pb ti td =
     (if pb = 0 \<or> ti = 0 then None
      else let kp = - 1.0 / pb; ki = kp / ti; kd = kp * td
           in Some \<lparr>Kp = kp, Ki = ki, Kd = kd, lastTime = 0, sumT = 0, tempSetPoint = 0,
                    maxIntegrator = \<bar>0.5 / ki\<bar>\<rparr>)"

definition setDesiredTemp :: "real \<Rightarrow> PIDController \<Rightarrow> PIDController" where
  "setDesiredTemp T c = c\<lparr>tempSetPoint := T, lastTime := 0, sumT := 0\<rparr>"

definition calculateIntegratorResponse ::
  "real \<Rightarrow> real \<Rightarrow> PIDController \<Rightarrow> real \<times> PIDController" where
  "calculateIntegratorResponse err dt c =
     (let maxI = maxIntegrator c;
          dI = err * dt;
          I = clamp (sumT c + dI) (- maxI) maxI
      in (Ki c * I, c\<lparr>sumT := I\<rparr>))"

definition calculateDerivativeResponse :: "real \<Rightarrow> real \<Rightarrow> PIDController \<Rightarrow> real option" where
  "calculateDerivativeResponse err dt c =
     (if dt = 0 then None else Some (Kd c * (err / dt)))"

definition calculateProportionalResponse :: "real \<Rightarrow> PIDController \<Rightarrow> real" where
  "calculateProportionalResponse err c = Kp c * err + 0.5"

text \<open>What the optional observer \<open>cb\<close> is handed.\<close>

record response_data =
  data_error :: real
  data_target :: real
  data_current :: real
  data_P :: real
  data_I :: real
  data_D :: "real option"

definition getControllerResponse ::
  "real \<Rightarrow> int \<Rightarrow> PIDController \<Rightarrow> real option \<times> response_data \<times> PIDController" where
  "getControllerResponse T currentTime c =
     (let dt = real_of_int (currentTime - lastTime c);
          err = T - tempSetPoint c;
          P = calculateProportionalResponse err c;
          (I, c1) = calculateIntegratorResponse err dt c;
          D = calculateDerivativeResponse err dt c1;
          u = map_option (\<lambda>d. P + I + d) D;
          c2 = c1\<lparr>lastTime := currentTime\<rparr>
      in (u,
          \<lparr>data_error = err, data_target = tempSetPoint c2, data_current = T,
           data_P = P, data_I = I, data_D = D\<rparr>,
          c2))"

datatype pid_call = SetDesiredTemp real | GetControllerResponse real int

fun call :: "PIDController \<Rightarrow> pid_call \<Rightarrow> PIDController" where
  "call c (SetDesiredTemp T) = setDesiredTemp T c"
| "call c (GetControllerResponse T currentTime) = snd (snd (getControllerResponse T currentTime c))"

definition calls :: "pid_call list \<Rightarrow> PIDController \<Rightarrow> PIDController" where
  "calls cs c = foldl call c cs"

section \<open>Duty-cycle actuators (TimedSwitchDevice, LatchedSwitchDevice)\<close>

text \<open>
  A cycle time is a JavaScript number: a count of milliseconds or
  \<open>Number.POSITIVE_INFINITY\<close>. Clock readings are \<open>int\<close> milliseconds, handed to
  every operation that reads \<open>Date.now()\<close> or arms a timeout. The timeouts of the
  event loop that belong to the device are part of its state: \<open>setTimeout\<close> appends
  one, with the value of \<open>stopAfterNext\<close> its handler has captured, and
  \<open>clearTimeout\<close> removes it.
\<close>

datatype cycle_time = Finite int | PositiveInfinity

fun exceeds :: "int \<Rightarrow> cycle_time \<Rightarrow> bool" where
  "exceeds elapsed (Finite ms) = (elapsed > ms)"
| "exceeds elapsed PositiveInfinity = False"

datatype emitted_event = EmitOn | EmitOff

record timeout =
  timeout_id :: nat
  due :: int
  stopAfterNext :: bool

record TimedSwitchDevice =
  isOn :: bool
  toggledTime :: int
  started :: bool
  interruptInterval :: int
  toggleCallbackID :: "nat option"
  onCycleTime :: cycle_time
  offCycleTime :: cycle_time
  emitted :: "emitted_event list"
  timeouts :: "timeout list"
  nextTimeoutID :: nat

definition new_TimedSwitchDevice :: "cycle_time \<Rightarrow> cycle_time \<Rightarrow> int \<Rightarrow> TimedSwitchDevice" where
  "new_TimedSwitchDevice onCycle offCycle loopInterval =
     \<lparr>isOn = False, toggledTime = 0, started = False, interruptInterval = loopInterval,
      toggleCallbackID = None, onCycleTime = onCycle, offCycleTime = offCycle,
      emitted = [], timeouts = [], nextTimeoutID = 1\<rparr>"

definition setTimeout :: "bool \<Rightarrow> int \<Rightarrow> int \<Rightarrow> TimedSwitchDevice \<Rightarrow> nat \<times> TimedSwitchDevice" where
  "setTimeout captured ms now s =
     (nextTimeoutID s,
      s\<lparr>timeouts := timeouts s @ [\<lparr>timeout_id = nextTimeoutID s, due = now + ms, stopAfterNext = captured\<rparr>],
        nextTimeoutID := nextTimeoutID s + 1\<rparr>)"

definition clearTimeout :: "nat \<Rightarrow> TimedSwitchDevice \<Rightarrow> TimedSwitchDevice" where
  "clearTimeout i s = s\<lparr>timeouts := filter (\<lambda>t. timeout_id t \<noteq> i) (timeouts s)\<rparr>"

definition setToggledTime :: "int \<Rightarrow> TimedSwitchDevice \<Rightarrow> TimedSwitchDevice" where
  "setToggledTime now s = s\<lparr>toggledTime := now\<rparr>"

definition stop :: "TimedSwitchDevice \<Rightarrow> TimedSwitchDevice" where
  "stop s =
     (let s1 = s\<lparr>started := False\<rparr>
      in case toggleCallbackID s1 of None \<Rightarrow> s1 | Some i \<Rightarrow> clearTimeout i s1)"

definition start :: "bool \<Rightarrow> int \<Rightarrow> TimedSwitchDevice \<Rightarrow> TimedSwitchDevice" where
  "start stopAfterNextArg now s =
     (if \<not> started s then
        (let s1 = s\<lparr>started := True\<rparr>;
             interruptMs = interruptInterval s1;
             (i, s2) = setTimeout stopAfterNextArg interruptMs now s1
         in s2\<lparr>toggleCallbackID := Some i\<rparr>)
      else s)"

definition resetCallbackLoop :: "int \<Rightarrow> TimedSwitchDevice \<Rightarrow> TimedSwitchDevice" where
  "resetCallbackLoop now s = start False now (stop s)"

definition setOnCycleTime :: "cycle_time \<Rightarrow> int \<Rightarrow> TimedSwitchDevice \<Rightarrow> TimedSwitchDevice" where
  "setOnCycleTime time now s = resetCallbackLoop now (s\<lparr>onCycleTime := time\<rparr>)"

definition setOffCycleTime :: "cycle_time \<Rightarrow> int \<Rightarrow> TimedSwitchDevice \<Rightarrow> TimedSwitchDevice" where
  "setOffCycleTime time now s = resetCallbackLoop now (s\<lparr>offCycleTime := time\<rparr>)"

definition turnOn :: "int \<Rightarrow> TimedSwitchDevice \<Rightarrow> TimedSwitchDevice" where
  "turnOn now s =
     (if \<not> isOn s then
        resetCallbackLoop now
          (setToggledTime now (s\<lparr>isOn := True, emitted := emitted s @ [EmitOn]\<rparr>))
      else s)"

definition turnOff :: "int \<Rightarrow> TimedSwitchDevice \<Rightarrow> TimedSwitchDevice" where
  "turnOff now s =
     (if isOn s then
        resetCallbackLoop now
          (setToggledTime now (s\<lparr>isOn := False, emitted := emitted s @ [EmitOff]\<rparr>))
      else s)"

text \<open>
  The handler \<open>fn\<close> that \<open>start\<close> hands to \<open>setTimeout\<close>, with the
  \<open>stopAfterNext\<close> it has captured. All clock readings of one run of the handler
  are the same instant.
\<close>

definition fn :: "bool \<Rightarrow> int \<Rightarrow> TimedSwitchDevice \<Rightarrow> TimedSwitchDevice" where
  "fn captured now s =
     (let s1 = (if isOn s then
                  (if exceeds (now - toggledTime s) (onCycleTime s) then turnOff now s else s)
                else
                  (if exceeds (now - toggledTime s) (offCycleTime s) then turnOn now s else s))
      in if captured then start False now s1 else s1)"

text \<open>
  One turn of the event loop at clock reading \<open>now\<close>: the oldest timeout that is due
  leaves the queue and its handler runs; with no timeout due nothing runs.
\<close>

definition fire :: "int \<Rightarrow> TimedSwitchDevice \<Rightarrow> TimedSwitchDevice option" where
  "fire now s =
     (case filter (\<lambda>t. due t \<le> now) (timeouts s) of
        [] \<Rightarrow> None
      | t # _ \<Rightarrow>
          Some (fn (stopAfterNext t) now
                  (s\<lparr>timeouts := filter (\<lambda>t'. timeout_id t' \<noteq> timeout_id t) (timeouts s)\<rparr>)))"

record LatchedSwitchDevice =
  timedDevice :: TimedSwitchDevice

definition new_LatchedSwitchDevice :: "int \<Rightarrow> LatchedSwitchDevice" where
  "new_LatchedSwitchDevice cycleTime =
     \<lparr>timedDevice = new_TimedSwitchDevice (Finite cycleTime) PositiveInfinity 500\<rparr>"

definition latched_isOn :: "LatchedSwitchDevice \<Rightarrow> bool" where
  "latched_isOn l = isOn (timedDevice l)"

definition latched_setCycleTime :: "int \<Rightarrow> int \<Rightarrow> LatchedSwitchDevice \<Rightarrow> LatchedSwitchDevice" where
  "latched_setCycleTime ms now l = l\<lparr>timedDevice := setOnCycleTime (Finite ms) now (timedDevice l)\<rparr>"

definition latched_turnOn :: "int \<Rightarrow> LatchedSwitchDevice \<Rightarrow> LatchedSwitchDevice" where
  "latched_turnOn now l = l\<lparr>timedDevice := turnOn now (timedDevice l)\<rparr>"

definition latched_turnOff :: "int \<Rightarrow> LatchedSwitchDevice \<Rightarrow> LatchedSwitchDevice" where
  "latched_turnOff now l = l\<lparr>timedDevice := turnOff now (timedDevice l)\<rparr>"

definition latched_start :: "bool \<Rightarrow> int \<Rightarrow> LatchedSwitchDevice \<Rightarrow> LatchedSwitchDevice" where
  "latched_start stopAfterNextArg now l = l\<lparr>timedDevice := start stopAfterNextArg now (timedDevice l)\<rparr>"

definition latched_stop :: "LatchedSwitchDevice \<Rightarrow> LatchedSwitchDevice" where
  "latched_stop l = l\<lparr>timedDevice := stop (timedDevice l)\<rparr>"

definition latched_fire :: "int \<Rightarrow> LatchedSwitchDevice \<Rightarrow> LatchedSwitchDevice option" where
  "latched_fire now l = map_option (\<lambda>d. l\<lparr>timedDevice := d\<rparr>) (fire now (timedDevice l))"

section \<open>Appliance controller (src/src/traeger.ts)\<close>

datatype TraegerState = Off | Shutdown | Start | Smoke | Ignite | Hold

text \<open>
  The state machine of the typestate library, as far as the constructor uses it: a
  current state and the transitions declared with \<open>from(a).to(b)\<close>.
\<close>

record FiniteStateMachine =
  currentState :: TraegerState
  transitions :: "(TraegerState \<times> TraegerState) list"

definition new_FiniteStateMachine :: "TraegerState \<Rightarrow> FiniteStateMachine" where
  "new_FiniteStateMachine startState = \<lparr>currentState = startState, transitions = []\<rparr>"

definition from_to :: "TraegerState \<Rightarrow> TraegerState \<Rightarrow> FiniteStateMachine \<Rightarrow> FiniteStateMachine" where
  "from_to a b m = m\<lparr>transitions := transitions m @ [(a, b)]\<rparr>"

record relayPins =
  pin_auger :: int
  pin_fan :: int
  pin_igniter :: int

record TraegerConfig =
  config_relayPins :: relayPins
  config_pMode :: int
  config_cycleTime :: int

record Traeger =
  relays :: relayPins
  fsm :: FiniteStateMachine
  fan :: LatchedSwitchDevice
  igniter :: LatchedSwitchDevice
  auger :: TimedSwitchDevice
  pMode :: int
  pidCycleTime :: int

definition new_Traeger :: "TraegerConfig \<Rightarrow> Traeger" where
  "new_Traeger config =
     \<lparr>relays = config_relayPins config,
      fsm = from_to Start Smoke (from_to Start Hold (from_to Off Start (new_FiniteStateMachine Off))),
      fan = new_LatchedSwitchDevice (10 * 60 * 1000),
      igniter = new_LatchedSwitchDevice (20 * 60 * 1000),
      auger = new_TimedSwitchDevice (Finite (15 * 1000)) (Finite (45 * 1000)) 500,
      pMode = config_pMode config,
      pidCycleTime = config_cycleTime config\<rparr>"

text \<open>\<open>setState\<close> has an empty body: it returns normally and touches nothing.\<close>

definition setState :: "TraegerState \<Rightarrow> Traeger \<Rightarrow> error + Traeger" where
  "setState state t = Inr t"

fun setStates :: "TraegerState list \<Rightarrow> Traeger \<Rightarrow> error + Traeger" where
  "setStates [] t = Inr t"
| "setStates (state # rest) t =
     (case setState state t of Inl e \<Rightarrow> Inl e | Inr t' \<Rightarrow> setStates rest t')"

text \<open>
  The transition set as the specification words it, to compare the code with:
  the seven named transitions, and every active state to \<open>Shutdown\<close>.
\<close>

definition spec_allowed :: "(TraegerState \<times> TraegerState) list" where
  "spec_allowed =
     [(Off, Start), (Start, Smoke), (Start, Hold), (Smoke, Ignite), (Ignite, Hold),
      (Hold, Shutdown), (Shutdown, Off),
      (Start, Shutdown), (Smoke, Shutdown), (Ignite, Shutdown)]"

section \<open>Auxiliary notions for the statements\<close>

text \<open>
  The data byte that a read-modify-write of the configuration register puts on the bus,
  given the two bytes clocked in by the read: \<open>toggleConfigBit\<close> followed by
  \<open>writeUint8\<close>, composed.
\<close>

definition sent_config :: "bool \<Rightarrow> int \<Rightarrow> byte list \<Rightarrow> byte" where
  "sent_config predicate bitLocation res =
     word_of_int ((if predicate then uint (receiveBuffer 2 res ! 1) OR bitLocation
                   else uint (receiveBuffer 2 res ! 1) AND NOT bitLocation) AND 0x08)"

text \<open>
  A run is orderly when a failure is the last thing on the log, carries the error the
  run returns, and nothing on the log addresses the fault status register.
\<close>

definition orderly :: "('d, 'a) io \<Rightarrow> bool" where
  "orderly m \<longleftrightarrow>
     (\<forall>w. case m w of
        (Inl e, w') \<Rightarrow>
          (\<exists>pre s. log w' = log w @ pre @ [Transfer s (Inl e)] \<and> \<not> list_ex failed pre
             \<and> \<not> list_ex (addresses 0x07) (pre @ [Transfer s (Inl e)]))
      | (Inr a, w') \<Rightarrow>
          (\<exists>new. log w' = log w @ new \<and> \<not> list_ex failed new
             \<and> \<not> list_ex (addresses 0x07) new))"

definition poly5 :: "real \<Rightarrow> real" where
  "poly5 r =
     15243 / 100000000000000 * r ^ 5 - 28183 / 1000000000000 * r ^ 4
       - 4826 / 1000000000 * r ^ 3 + 25859 / 10000000 * r ^ 2 + 22228 / 10000 * r
       - 24202 / 100"

text \<open>The controller built from \<open>pb = 50\<close>, \<open>ti = 100\<close>, \<open>td = 10\<close>.\<close>

definition pid_example :: PIDController where
  "pid_example =
     \<lparr>Kp = - 2 / 100, Ki = - 2 / 10000, Kd = - 2 / 10, lastTime = 0, sumT = 0,
      tempSetPoint = 0, maxIntegrator = 2500\<rparr>"

definition within_bound :: "PIDController \<Rightarrow> bool" where
  "within_bound c \<longleftrightarrow>
     0 \<le> maxIntegrator c \<and> - maxIntegrator c \<le> sumT c \<and> sumT c \<le> maxIntegrator c"

text \<open>An actuator of 1 s on and 2 s off, a latched one of 5 s, a configuration.\<close>

definition duty_example :: TimedSwitchDevice where
  "duty_example = new_TimedSwitchDevice (Finite 1000) (Finite 2000) 500"

definition latched_example :: LatchedSwitchDevice where
  "latched_example = new_LatchedSwitchDevice 5000"

definition config_example :: TraegerConfig where
  "config_example =
     \<lparr>config_relayPins = \<lparr>pin_auger = 1, pin_fan = 2, pin_igniter = 3\<rparr>,
      config_pMode = 2, config_cycleTime = 20000\<rparr>"

definition fresh :: "'d \<Rightarrow> 'd world" where
  "fresh d = \<lparr>dev = d, log = []\<rparr>"

section \<open>Register access and the acquisition sequence\<close>

lemma toggleConfigBit_run:
  "toggleConfigBit T p b w =
     (case T (dev w) [0x00, 0x00] of
        (Inl e, d1) \<Rightarrow>
          (Inl e, w\<lparr>dev := d1, log := log w @ [Transfer [0x00, 0x00] (Inl e)]\<rparr>)
      | (Inr r1, d1) \<Rightarrow>
          (case T d1 [0x80, sent_config p b r1] of
             (Inl e, d2) \<Rightarrow>
               (Inl e, w\<lparr>dev := d2, log := log w @
                  [Transfer [0x00, 0x00] (Inr r1), Transfer [0x80, sent_config p b r1] (Inl e)]\<rparr>)
           | (Inr r2, d2) \<Rightarrow>
               (Inr (), w\<lparr>dev := d2, log := log w @
                  [Transfer [0x00, 0x00] (Inr r1), Transfer [0x80, sent_config p b r1] (Inr r2)]\<rparr>)))"
  by (simp add: toggleConfigBit_def readUint8_def writeUint8_def await_def resolve_def
      transfer_def sent_config_def Let_def split: prod.splits sum.splits)

lemma toggleConfigBit_Inr:
  assumes "toggleConfigBit T p b w = (Inr u, w')"
  shows "\<exists>r1 r2. log w' = log w @
           [Transfer [0x00, 0x00] (Inr r1), Transfer [0x80, sent_config p b r1] (Inr r2)]"
  using assms unfolding toggleConfigBit_run by (auto split: prod.splits sum.splits)

lemma await_Inr:
  assumes "await m f w = (Inr v, w')"
  obtains a w1 where "m w = (Inr a, w1)" and "f a w1 = (Inr v, w')"
  using assms by (auto simp: await_def split: prod.splits sum.splits)

lemma delay_run: "delay ms w = (r, w') \<Longrightarrow> r = Inr () \<and> log w' = log w @ [Delay ms]"
  by (auto simp: delay_def)

lemma readUint16_Inr:
  assumes "readUint16 T reg w = (Inr v, w')"
  shows "\<exists>res. log w' = log w @ [Transfer [read_address reg, 0x00, 0x00] (Inr res)]
      \<and> v = push_bit 8 (uint (receiveBuffer 3 res ! 1)) OR uint (receiveBuffer 3 res ! 2)"
  using assms
  by (auto simp: readUint16_def await_def resolve_def transfer_def Let_def
      split: prod.splits sum.splits)

lemma readRTD_trace:
  assumes "readRTD T w = (Inr v, w')"
  shows "\<exists>r1 r2 r3 r4 r5 r6 res.
     log w' = log w @
       [Transfer [0x00, 0x00] (Inr r1), Transfer [0x80, sent_config True 0x02 r1] (Inr r2),
        Transfer [0x00, 0x00] (Inr r3), Transfer [0x80, sent_config True 0x80 r3] (Inr r4),
        Delay 10,
        Transfer [0x00, 0x00] (Inr r5), Transfer [0x80, sent_config True 0x20 r5] (Inr r6),
        Delay 65,
        Transfer [0x01, 0x00, 0x00] (Inr res)]
     \<and> v = drop_bit 1 (push_bit 8 (uint (receiveBuffer 3 res ! 1)) OR uint (receiveBuffer 3 res ! 2))"
proof -
  from assms obtain u1 w1 where s1: "clearFaultStatus T w = (Inr u1, w1)"
    and k1: "await (setBiasVoltage T True) (\<lambda>_.
     await (delay 10) (\<lambda>_.
     await (setOneShot T) (\<lambda>_.
     await (delay 65) (\<lambda>_.
     await (readUint16 T RTDMSBs) (\<lambda>rawValue.
     resolve (drop_bit 1 rawValue)))))) w1 = (Inr v, w')"
    unfolding readRTD_def by (rule await_Inr)
  from k1 obtain u2 w2 where s2: "setBiasVoltage T True w1 = (Inr u2, w2)"
    and k2: "await (delay 10) (\<lambda>_.
     await (setOneShot T) (\<lambda>_.
     await (delay 65) (\<lambda>_.
     await (readUint16 T RTDMSBs) (\<lambda>rawValue.
     resolve (drop_bit 1 rawValue))))) w2 = (Inr v, w')"
    by (rule await_Inr)
  from k2 obtain u3 w3 where s3: "delay 10 w2 = (Inr u3, w3)"
    and k3: "await (setOneShot T) (\<lambda>_.
     await (delay 65) (\<lambda>_.
     await (readUint16 T RTDMSBs) (\<lambda>rawValue.
     resolve (drop_bit 1 rawValue)))) w3 = (Inr v, w')"
    by (rule await_Inr)
  from k3 obtain u4 w4 where s4: "setOneShot T w3 = (Inr u4, w4)"
    and k4: "await (delay 65) (\<lambda>_.
     await (readUint16 T RTDMSBs) (\<lambda>rawValue.
     resolve (drop_bit 1 rawValue))) w4 = (Inr v, w')"
    by (rule await_Inr)
  from k4 obtain u5 w5 where s5: "delay 65 w4 = (Inr u5, w5)"
    and k5: "await (readUint16 T RTDMSBs) (\<lambda>rawValue.
     resolve (drop_bit 1 rawValue)) w5 = (Inr v, w')"
    by (rule await_Inr)
  from k5 obtain rawValue w6 where s6: "readUint16 T RTDMSBs w5 = (Inr rawValue, w6)"
    and k6: "resolve (drop_bit 1 rawValue) w6 = (Inr v, w')"
    by (rule await_Inr)
  from k6 have v: "v = drop_bit 1 rawValue" and w': "w' = w6"
    by (simp_all add: resolve_def)
  from toggleConfigBit_Inr[OF s1[unfolded clearFaultStatus_def]] obtain r1 r2 where
    l1: "log w1 = log w @
      [Transfer [0x00, 0x00] (Inr r1), Transfer [0x80, sent_config True 0x02 r1] (Inr r2)]"
    by blast
  from toggleConfigBit_Inr[OF s2[unfolded setBiasVoltage_def]] obtain r3 r4 where
    l2: "log w2 = log w1 @
      [Transfer [0x00, 0x00] (Inr r3), Transfer [0x80, sent_config True 0x80 r3] (Inr r4)]"
    by blast
  from delay_run[OF s3] have l3: "log w3 = log w2 @ [Delay 10]" by simp
  from toggleConfigBit_Inr[OF s4[unfolded setOneShot_def]] obtain r5 r6 where
    l4: "log w4 = log w3 @
      [Transfer [0x00, 0x00] (Inr r5), Transfer [0x80, sent_config True 0x20 r5] (Inr r6)]"
    by blast
  from delay_run[OF s5] have l5: "log w5 = log w4 @ [Delay 65]" by simp
  from readUint16_Inr[OF s6] obtain res where
    l6: "log w6 = log w5 @ [Transfer [0x01, 0x00, 0x00] (Inr res)]"
    and rv: "rawValue = push_bit 8 (uint (receiveBuffer 3 res ! 1)) OR uint (receiveBuffer 3 res ! 2)"
    by auto
  show ?thesis using l1 l2 l3 l4 l5 l6 rv v w' by simp
qed

lemma rtd_decode:
  fixes msb lsb :: byte
  shows "drop_bit 1 (push_bit 8 (uint msb) OR uint lsb) = uint msb * 128 + uint lsb div 2"
proof -
  have "push_bit 8 (uint msb) + uint lsb = push_bit 8 (uint msb) OR uint lsb"
    by (rule disjunctive_add) (auto simp: bit_simps dest: bit_imp_le_length)
  then have "drop_bit 1 (push_bit 8 (uint msb) OR uint lsb) = (uint msb * 256 + uint lsb) div 2"
    by (simp add: drop_bit_eq_div push_bit_eq_mult del: drop_bit_or)
  then show ?thesis by simp
qed

lemma rtd_range:
  fixes msb lsb :: byte
  shows "0 \<le> uint msb * 128 + uint lsb div 2 \<and> uint msb * 128 + uint lsb div 2 < 32768"
proof -
  have "uint msb < 256" "uint lsb < 256" "0 \<le> uint msb" "0 \<le> uint lsb"
    using uint_bounded[of msb] uint_bounded[of lsb] by simp_all
  then show ?thesis by simp
qed

lemma orderly_resolve: "orderly (resolve a)"
  by (simp add: orderly_def resolve_def)

lemma orderly_delay: "orderly (delay ms)"
  by (simp add: orderly_def delay_def)

lemma orderly_transfer: "s \<noteq> [] \<Longrightarrow> hd s \<noteq> 0x07 \<Longrightarrow> orderly (transfer T s)"
  unfolding orderly_def transfer_def
  by (auto split: prod.splits sum.splits list.splits)

lemma orderly_await:
  assumes "orderly m" "\<And>a. orderly (f a)"
  shows "orderly (await m f)"
  unfolding orderly_def
proof
  fix w
  show "case await m f w of
      (Inl e, w') \<Rightarrow>
        (\<exists>pre s. log w' = log w @ pre @ [Transfer s (Inl e)] \<and> \<not> list_ex failed pre
           \<and> \<not> list_ex (addresses 0x07) (pre @ [Transfer s (Inl e)]))
    | (Inr a, w') \<Rightarrow>
        (\<exists>new. log w' = log w @ new \<and> \<not> list_ex failed new
           \<and> \<not> list_ex (addresses 0x07) new)"
  proof (cases "m w")
    case (Pair r w1)
    show ?thesis
    proof (cases r)
      case (Inl e)
      with Pair assms(1)[unfolded orderly_def, rule_format, of w] show ?thesis
        by (simp add: await_def)
    next
      case (Inr a)
      with Pair assms(1)[unfolded orderly_def, rule_format, of w]
      obtain new where n: "log w1 = log w @ new" "\<not> list_ex failed new"
          "\<not> list_ex (addresses 0x07) new"
        by auto
      have aw: "await m f w = f a w1" using Pair Inr by (simp add: await_def)
      show ?thesis
      proof (cases "f a w1")
        case (Pair r2 w2)
        show ?thesis
        proof (cases r2)
          case (Inl e)
          with Pair assms(2)[of a, unfolded orderly_def, rule_format, of w1]
          obtain pre s where p: "log w2 = log w1 @ pre @ [Transfer s (Inl e)]"
              "\<not> list_ex failed pre"
              "\<not> list_ex (addresses 0x07) (pre @ [Transfer s (Inl e)])"
            by auto
          have "log w2 = log w @ (new @ pre) @ [Transfer s (Inl e)]
              \<and> \<not> list_ex failed (new @ pre)
              \<and> \<not> list_ex (addresses 0x07) ((new @ pre) @ [Transfer s (Inl e)])"
            using n p by (auto simp: list_ex_iff)
          then show ?thesis unfolding aw Pair Inl by (simp only: prod.case sum.case) blast
        next
          case (Inr b)
          with Pair assms(2)[of a, unfolded orderly_def, rule_format, of w1]
          obtain new2 where p: "log w2 = log w1 @ new2" "\<not> list_ex failed new2"
              "\<not> list_ex (addresses 0x07) new2"
            by auto
          have "log w2 = log w @ (new @ new2) \<and> \<not> list_ex failed (new @ new2)
              \<and> \<not> list_ex (addresses 0x07) (new @ new2)"
            using n p by (auto simp: list_ex_iff)
          then show ?thesis unfolding aw Pair Inr by (simp only: prod.case sum.case) blast
        qed
      qed
    qed
  qed
qed

lemma orderly_toggleConfigBit: "orderly (toggleConfigBit T p b)"
  unfolding toggleConfigBit_def readUint8_def writeUint8_def Let_def
  by (intro orderly_await orderly_transfer orderly_resolve) simp_all

lemma orderly_readRTD: "orderly (readRTD T)"
  unfolding readRTD_def clearFaultStatus_def setBiasVoltage_def setOneShot_def
    readUint16_def Let_def
  by (intro orderly_await orderly_toggleConfigBit orderly_delay orderly_transfer
      orderly_resolve) simp_all

lemma orderly_getTemperature: "orderly (getTemperature R0 Rref T)"
  unfolding getTemperature_def
  by (intro orderly_await orderly_readRTD orderly_resolve)

lemmas run_defs =
  setBiasVoltage_def clearFaultStatus_def setOneShot_def set50Hz_def setWireConfig_def
  setAutoConversion_def toggleConfigBit_def readUint8_def writeUint8_def readUint16_def
  readRTD_def getTemperature_def delay_def await_def resolve_def transfer_def
  receiveBuffer_def chip_transport_def fresh_def

text \<open>
  Claim C2. Each of the six configuration operations should put on the bus the byte it
  has read with exactly the target bit set or cleared. It does not: \<open>writeUint8\<close>
  masks the data with \<open>0x08\<close> before sending. On a chip whose configuration register
  holds \<open>0x00\<close>, setting the bias, one-shot, fault-clear, 50 Hz, three-wire or
  auto-conversion bit sends the data byte \<open>0x00\<close> in every case, where \<open>0x80\<close>,
  \<open>0x20\<close>, \<open>0x02\<close>, \<open>0x01\<close>, \<open>0x10\<close> and \<open>0x40\<close> are due; with \<open>0xFF\<close> in
  the register, clearing the bias bit sends \<open>0x08\<close>, where \<open>0x7F\<close> is due.
\<close>

theorem writeUint8_masks_data:
  "log (snd (setBiasVoltage chip_transport True (fresh chip_minus50))) =
     [Transfer [0x00, 0x00] (Inr [0x00, 0x00]), Transfer [0x80, 0x00] (Inr [0x00, 0x00])]
   \<and> log (snd (setOneShot chip_transport (fresh chip_minus50))) =
     [Transfer [0x00, 0x00] (Inr [0x00, 0x00]), Transfer [0x80, 0x00] (Inr [0x00, 0x00])]
   \<and> log (snd (clearFaultStatus chip_transport (fresh chip_minus50))) =
     [Transfer [0x00, 0x00] (Inr [0x00, 0x00]), Transfer [0x80, 0x00] (Inr [0x00, 0x00])]
   \<and> log (snd (set50Hz chip_transport True (fresh chip_minus50))) =
     [Transfer [0x00, 0x00] (Inr [0x00, 0x00]), Transfer [0x80, 0x00] (Inr [0x00, 0x00])]
   \<and> log (snd (setWireConfig chip_transport True (fresh chip_minus50))) =
     [Transfer [0x00, 0x00] (Inr [0x00, 0x00]), Transfer [0x80, 0x00] (Inr [0x00, 0x00])]
   \<and> log (snd (setAutoConversion chip_transport True (fresh chip_minus50))) =
     [Transfer [0x00, 0x00] (Inr [0x00, 0x00]), Transfer [0x80, 0x00] (Inr [0x00, 0x00])]
   \<and> log (snd (setBiasVoltage chip_transport False
              (fresh (chip_minus50\<lparr>config_reg := 0xFF\<rparr>)))) =
     [Transfer [0x00, 0x00] (Inr [0x00, 0xFF]), Transfer [0x80, 0x08] (Inr [0x00, 0x00])]"
  by (simp add: run_defs chip_minus50_def)

text \<open>
  What a run of \<open>readRTD\<close> that returns has put on the bus, in order: three
  read-modify-writes of the configuration register, with a delay of 10 ms after the
  second and of 65 ms after the third, and the three-byte read of register \<open>0x01\<close>.
  The code returned is the 16-bit register value shifted right by one,
  \<open>128 * msb + lsb div 2\<close>, between 0 and 32767, in which bit 0 of the low byte
  has no part.
\<close>

lemma readRTD_sequence:
  assumes "readRTD T w = (Inr rtd, w')"
  shows "\<exists>r1 r2 r3 r4 r5 r6 res.
     new_events w w' =
       [Transfer [0x00, 0x00] (Inr r1), Transfer [0x80, sent_config True 0x02 r1] (Inr r2),
        Transfer [0x00, 0x00] (Inr r3), Transfer [0x80, sent_config True 0x80 r3] (Inr r4),
        Delay 10,
        Transfer [0x00, 0x00] (Inr r5), Transfer [0x80, sent_config True 0x20 r5] (Inr r6),
        Delay 65,
        Transfer [0x01, 0x00, 0x00] (Inr res)]
     \<and> rtd = drop_bit 1 (push_bit 8 (uint (receiveBuffer 3 res ! 1)) OR uint (receiveBuffer 3 res ! 2))
     \<and> rtd = uint (receiveBuffer 3 res ! 1) * 128 + uint (receiveBuffer 3 res ! 2) div 2
     \<and> 0 \<le> rtd \<and> rtd < 32768"
proof -
  from readRTD_trace[OF assms] obtain r1 r2 r3 r4 r5 r6 res where
    l: "log w' = log w @
       [Transfer [0x00, 0x00] (Inr r1), Transfer [0x80, sent_config True 0x02 r1] (Inr r2),
        Transfer [0x00, 0x00] (Inr r3), Transfer [0x80, sent_config True 0x80 r3] (Inr r4),
        Delay 10,
        Transfer [0x00, 0x00] (Inr r5), Transfer [0x80, sent_config True 0x20 r5] (Inr r6),
        Delay 65,
        Transfer [0x01, 0x00, 0x00] (Inr res)]"
    and v: "rtd = drop_bit 1 (push_bit 8 (uint (receiveBuffer 3 res ! 1)) OR uint (receiveBuffer 3 res ! 2))"
    by blast
  have v2: "rtd = uint (receiveBuffer 3 res ! 1) * 128 + uint (receiveBuffer 3 res ! 2) div 2"
    unfolding v by (rule rtd_decode)
  have rng: "0 \<le> rtd \<and> rtd < 32768"
    unfolding v2 by (rule rtd_range)
  have n: "new_events w w' =
       [Transfer [0x00, 0x00] (Inr r1), Transfer [0x80, sent_config True 0x02 r1] (Inr r2),
        Transfer [0x00, 0x00] (Inr r3), Transfer [0x80, sent_config True 0x80 r3] (Inr r4),
        Delay 10,
        Transfer [0x00, 0x00] (Inr r5), Transfer [0x80, sent_config True 0x20 r5] (Inr r6),
        Delay 65,
        Transfer [0x01, 0x00, 0x00] (Inr res)]"
    by (simp add: new_events_def l)
  from n v v2 rng show ?thesis by blast
qed

text \<open>
  The data byte of each of the three writes is the byte read, masked with \<open>0x08\<close>:
  the bit asked for is not in it.
\<close>

lemma sent_config_masked:
  "sent_config True 0x02 r = receiveBuffer 2 r ! 1 AND 0x08"
  "sent_config True 0x80 r = receiveBuffer 2 r ! 1 AND 0x08"
  "sent_config True 0x20 r = receiveBuffer 2 r ! 1 AND 0x08"
proof -
  have m: "(uint x OR b) AND 0x08 = uint x AND 0x08" if "b AND 0x08 = 0"
    for x :: byte and b :: int
    using that by (simp add: bit.conj_disj_distrib2)
  have w: "(word_of_int (uint x AND 0x08) :: byte) = x AND 0x08" for x :: byte
    by (rule bit_word_eqI) (auto simp: bit_simps)
  show "sent_config True 0x02 r = receiveBuffer 2 r ! 1 AND 0x08"
    "sent_config True 0x80 r = receiveBuffer 2 r ! 1 AND 0x08"
    "sent_config True 0x20 r = receiveBuffer 2 r ! 1 AND 0x08"
    unfolding sent_config_def by (simp_all add: m w)
qed

text \<open>
  Claim C6. \<open>readRTD\<close> should clear the fault status, enable the bias, wait 10 ms,
  trigger a one-shot conversion, wait 65 ms and read the RTD register, and return the
  register value shifted right by one. The steps are issued in that order and the code
  is decoded as claimed (the register value \<open>0x0003\<close>, which is \<open>0x0002\<close> with the
  fault bit set, gives 1), but none of the three configuration bits reaches the chip. On
  a chip whose configuration register holds \<open>0x00\<close> the three writes carry the data
  byte \<open>0x00\<close>, where \<open>0x02\<close>, \<open>0x80\<close> and \<open>0x20\<close> are due, and the register
  is \<open>0x00\<close> after the run as before it: no fault cleared, no bias, no conversion.
  With \<open>0xFF\<close> in the register the three writes carry \<open>0x08\<close>.
\<close>

theorem readRTD_config_bits_never_sent:
  "readRTD chip_transport (fresh chip_code1) =
     (Inr 1, \<lparr>dev = chip_code1, log =
        [Transfer [0x00, 0x00] (Inr [0x00, 0x00]), Transfer [0x80, 0x00] (Inr [0x00, 0x00]),
         Transfer [0x00, 0x00] (Inr [0x00, 0x00]), Transfer [0x80, 0x00] (Inr [0x00, 0x00]),
         Delay 10,
         Transfer [0x00, 0x00] (Inr [0x00, 0x00]), Transfer [0x80, 0x00] (Inr [0x00, 0x00]),
         Delay 65,
         Transfer [0x01, 0x00, 0x00] (Inr [0x00, 0x00, 0x03])]\<rparr>)
   \<and> config_reg chip_code1 = 0x00
   \<and> log (snd (readRTD chip_transport (fresh (chip_code1\<lparr>config_reg := 0xFF\<rparr>)))) =
        [Transfer [0x00, 0x00] (Inr [0x00, 0xFF]), Transfer [0x80, 0x08] (Inr [0x00, 0x00]),
         Transfer [0x00, 0x00] (Inr [0x00, 0x08]), Transfer [0x80, 0x08] (Inr [0x00, 0x00]),
         Delay 10,
         Transfer [0x00, 0x00] (Inr [0x00, 0x08]), Transfer [0x80, 0x08] (Inr [0x00, 0x00]),
         Delay 65,
         Transfer [0x01, 0x00, 0x00] (Inr [0x00, 0x00, 0x03])]"
  by (simp add: run_defs chip_code1_def)

text \<open>
  Claim C7, as stated. On a chip whose fault status register holds \<open>0x04\<close> and whose
  RTD register has the fault bit set, every exchange succeeds and the call returns the
  very number it returns on a chip without fault: a bare temperature, with nothing in it
  that marks the reading as faulted.
\<close>

theorem getTemperature_no_fault_marking:
  "fst (getTemperature 100 430 chip_transport (fresh chip_faulted))
     = Inr (temperature_of_raw 100 430 6120)
   \<and> fst (getTemperature 100 430 chip_transport (fresh chip_minus50))
     = Inr (temperature_of_raw 100 430 6120)
   \<and> fault_reg chip_faulted = 0x04 \<and> rtd_lsb chip_faulted AND 1 = 1
   \<and> fault_reg chip_minus50 = 0x00 \<and> rtd_lsb chip_minus50 AND 1 = 0"
  by (simp add: run_defs chip_faulted_def chip_minus50_def)

text \<open>
  Claim C7, amended. A failed exchange ends the run: it is the last thing on the bus, no
  exchange before it failed, and the call fails with the error of that exchange. A call
  that returns has seen no exchange fail, and what it returns is the temperature decoded
  from bits 15 to 1 of the RTD register, a number and nothing more. No exchange of
  either kind of run addresses the fault status register \<open>0x07\<close>.
\<close>

theorem getTemperature_outcome:
  "case getTemperature R0 Rref T w of
     (Inl e, w') \<Rightarrow>
       (\<exists>pre s. new_events w w' = pre @ [Transfer s (Inl e)] \<and> \<not> list_ex failed pre)
       \<and> \<not> list_ex (addresses 0x07) (new_events w w')
   | (Inr t, w') \<Rightarrow>
       \<not> list_ex failed (new_events w w')
       \<and> \<not> list_ex (addresses 0x07) (new_events w w')
       \<and> (\<exists>res. last (new_events w w') = Transfer [0x01, 0x00, 0x00] (Inr res)
             \<and> t = temperature_of_raw R0 Rref
                     (uint (receiveBuffer 3 res ! 1) * 128 + uint (receiveBuffer 3 res ! 2) div 2))"
proof (cases "getTemperature R0 Rref T w")
  case (Pair r w')
  note ord = orderly_getTemperature[of R0 Rref T, unfolded orderly_def, rule_format, of w]
  show ?thesis
  proof (cases r)
    case (Inl e)
    with Pair ord obtain pre s where
      p: "log w' = log w @ pre @ [Transfer s (Inl e)]" "\<not> list_ex failed pre"
         "\<not> list_ex (addresses 0x07) (pre @ [Transfer s (Inl e)])"
      by auto
    have n: "new_events w w' = pre @ [Transfer s (Inl e)]"
      by (simp add: new_events_def p(1))
    show ?thesis unfolding Pair Inl using n p(2,3) by auto
  next
    case (Inr t)
    with Pair ord obtain new where
      p: "log w' = log w @ new" "\<not> list_ex failed new" "\<not> list_ex (addresses 0x07) new"
      by auto
    have n: "new_events w w' = new" by (simp add: new_events_def p(1))
    from Pair Inr have "await (readRTD T) (\<lambda>raw. resolve (temperature_of_raw R0 Rref raw)) w = (Inr t, w')"
      by (simp add: getTemperature_def)
    then obtain raw w1 where rd: "readRTD T w = (Inr raw, w1)"
      and rs: "resolve (temperature_of_raw R0 Rref raw) w1 = (Inr t, w')"
      by (rule await_Inr)
    from rs have t: "t = temperature_of_raw R0 Rref raw" and w1: "w1 = w'"
      by (simp_all add: resolve_def)
    from readRTD_trace[OF rd[unfolded w1]] obtain res where
      l: "last (log w') = Transfer [0x01, 0x00, 0x00] (Inr res)"
      and v: "raw = drop_bit 1 (push_bit 8 (uint (receiveBuffer 3 res ! 1)) OR uint (receiveBuffer 3 res ! 2))"
      by auto
    from readRTD_trace[OF rd[unfolded w1]] have ne: "new \<noteq> []" unfolding p(1) by auto
    have l2: "last (new_events w w') = Transfer [0x01, 0x00, 0x00] (Inr res)"
      using l ne unfolding n p(1) by simp
    have v2: "raw = uint (receiveBuffer 3 res ! 1) * 128 + uint (receiveBuffer 3 res ! 2) div 2"
      unfolding v by (rule rtd_decode)
    show ?thesis unfolding Pair Inr using n p(2,3) l2 t v2 by auto
  qed
qed

section \<open>Temperature decoding\<close>

lemma quad_sign:
  assumes "0 < R0" "0 \<le> rtdA\<^sup>2 - 4 * rtdB + 4 * rtdB * R / R0"
  shows "0 \<le> (sqrt (rtdA\<^sup>2 - 4 * rtdB + 4 * rtdB * R / R0) - rtdA) / (2 * rtdB) \<longleftrightarrow> R0 \<le> R"
proof -
  let ?D = "rtdA\<^sup>2 - 4 * rtdB + 4 * rtdB * R / R0"
  have B: "rtdB < 0" and A: "0 < rtdA" by (simp_all add: rtdA_def rtdB_def)
  have "0 \<le> (sqrt ?D - rtdA) / (2 * rtdB) \<longleftrightarrow> sqrt ?D \<le> rtdA"
    using B by (simp add: divide_le_0_iff zero_le_divide_iff)
  also have "\<dots> \<longleftrightarrow> ?D \<le> rtdA\<^sup>2"
    using A assms(2) by (metis less_eq_real_def real_sqrt_le_iff real_sqrt_abs abs_of_nonneg)
  also have "\<dots> \<longleftrightarrow> 4 * rtdB * (R / R0 - 1) \<le> 0"
    by (simp add: algebra_simps)
  also have "\<dots> \<longleftrightarrow> 1 \<le> R / R0"
    using B by (simp add: mult_le_0_iff)
  also have "\<dots> \<longleftrightarrow> R0 \<le> R"
    using assms(1) by (simp add: le_divide_eq)
  finally show ?thesis .
qed

lemma discriminant_below_nominal:
  assumes "0 < R0" "R < R0"
  shows "0 \<le> rtdA\<^sup>2 - 4 * rtdB + 4 * rtdB * R / R0"
proof -
  have B: "rtdB < 0" by (simp add: rtdB_def)
  have "R / R0 < 1" using assms by simp
  then have "0 \<le> 4 * rtdB * (R / R0 - 1)" using B by (simp add: zero_le_mult_iff)
  then have "0 \<le> rtdA\<^sup>2 + 4 * rtdB * (R / R0 - 1)" by (metis add_nonneg_nonneg zero_le_power2)
  then show ?thesis by (simp add: algebra_simps)
qed

lemma horner: "foldl (\<lambda>res c. res * r + c) (coeffs5thOrder ! 0) (drop 1 coeffs5thOrder) = poly5 r"
  by (simp add: coeffs5thOrder_def poly5_def algebra_simps power2_eq_square power3_eq_cube
      power4_eq_xxxx eval_nat_numeral)

lemma discriminant_form:
  "rtdA * rtdA - 4 * rtdB + 4 * rtdB / R0 * R = rtdA\<^sup>2 - 4 * rtdB + 4 * rtdB * R / R0"
  by (simp add: power2_eq_square)

lemma temperature_of_raw_eq:
  "temperature_of_raw R0 Rref raw =
   (if R0 = 0 then None
    else
      (let R = real_of_int raw / 32768 * Rref;
           D = rtdA\<^sup>2 - 4 * rtdB + 4 * rtdB * R / R0;
           t = (sqrt D - rtdA) / (2 * rtdB)
       in Some (if 0 \<le> D \<and> 0 \<le> t then t else poly5 (R / R0 * 100))))"
  unfolding temperature_of_raw_def Let_def horner discriminant_form by simp

text \<open>
  Claim C1. \<open>getTemperature\<close> fails as \<open>readRTD\<close> does, and otherwise returns, for
  the resistance \<open>R = raw / 32768 * Rref\<close> and a nominal resistance other than zero:
  the value
  \<open>t = (sqrt (A\<^sup>2 - 4 B + 4 B R / R0) - A) / (2 B)\<close> when it is a number
  (the square root is of a non-negative) and \<open>t \<ge> 0\<close>, and otherwise the fifth-order
  polynomial in \<open>R / R0 * 100\<close> that the Horner loop computes. A resistance below
  the nominal one, which is what a temperature below zero gives, makes \<open>t\<close> negative
  and is decoded by the polynomial.
\<close>

theorem getTemperature_two_branch:
  "getTemperature R0 Rref T w =
     (case readRTD T w of
        (Inl e, w') \<Rightarrow> (Inl e, w')
      | (Inr raw, w') \<Rightarrow>
          (let R = real_of_int raw / 32768 * Rref;
               D = rtdA\<^sup>2 - 4 * rtdB + 4 * rtdB * R / R0;
               t = (sqrt D - rtdA) / (2 * rtdB)
           in (Inr (if R0 = 0 then None
                    else Some (if 0 \<le> D \<and> 0 \<le> t then t else poly5 (R / R0 * 100))), w')))
   \<and> (0 < R0 \<and> real_of_int raw / 32768 * Rref < R0 \<longrightarrow>
        temperature_of_raw R0 Rref raw
          = Some (poly5 (real_of_int raw / 32768 * Rref / R0 * 100))
        \<and> (sqrt (rtdA\<^sup>2 - 4 * rtdB + 4 * rtdB * (real_of_int raw / 32768 * Rref) / R0) - rtdA)
             / (2 * rtdB) < 0)"
proof (intro conjI impI)
  show "getTemperature R0 Rref T w =
     (case readRTD T w of
        (Inl e, w') \<Rightarrow> (Inl e, w')
      | (Inr raw, w') \<Rightarrow>
          (let R = real_of_int raw / 32768 * Rref;
               D = rtdA\<^sup>2 - 4 * rtdB + 4 * rtdB * R / R0;
               t = (sqrt D - rtdA) / (2 * rtdB)
           in (Inr (if R0 = 0 then None
                    else Some (if 0 \<le> D \<and> 0 \<le> t then t else poly5 (R / R0 * 100))), w')))"
    by (simp add: getTemperature_def await_def resolve_def temperature_of_raw_eq Let_def
        split: prod.splits sum.splits)
next
  assume a: "0 < R0 \<and> real_of_int raw / 32768 * Rref < R0"
  define R where "R = real_of_int raw / 32768 * Rref"
  from a have R0: "0 < R0" and lt: "R < R0" by (simp_all add: R_def)
  have D: "0 \<le> rtdA\<^sup>2 - 4 * rtdB + 4 * rtdB * R / R0"
    using R0 lt by (rule discriminant_below_nominal)
  have neg: "\<not> 0 \<le> (sqrt (rtdA\<^sup>2 - 4 * rtdB + 4 * rtdB * R / R0) - rtdA) / (2 * rtdB)"
    using quad_sign[OF R0 D] lt by simp
  show "temperature_of_raw R0 Rref raw
          = Some (poly5 (real_of_int raw / 32768 * Rref / R0 * 100))"
    using neg R0 by (simp add: temperature_of_raw_eq Let_def R_def)
  show "(sqrt (rtdA\<^sup>2 - 4 * rtdB + 4 * rtdB * (real_of_int raw / 32768 * Rref) / R0) - rtdA)
             / (2 * rtdB) < 0"
    using neg by (simp add: R_def)
qed

text \<open>
  A PT100 (\<open>R0 = 100\<close>, \<open>Rref = 430\<close>) at the raw code 6120, that is 80.31 ohm,
  the resistance at about -50 degrees: the polynomial's value is returned, and lies
  between -50.1 and -49.9.
\<close>

theorem getTemperature_two_branch_witness:
  "(0::real) < 100 \<and> real_of_int 6120 / 32768 * 430 < (100::real)
   \<and> fst (getTemperature 100 430 chip_transport (fresh chip_minus50))
       = Inr (Some (poly5 (real_of_int 6120 / 32768 * 430 / 100 * 100)))
   \<and> - 501 / 10 < poly5 (real_of_int 6120 / 32768 * 430 / 100 * 100)
   \<and> poly5 (real_of_int 6120 / 32768 * 430 / 100 * 100) < - 499 / 10
   \<and> (sqrt (rtdA\<^sup>2 - 4 * rtdB + 4 * rtdB * (real_of_int 6120 / 32768 * 430) / 100) - rtdA)
        / (2 * rtdB) < 0"
proof -
  have rd: "fst (getTemperature 100 430 chip_transport (fresh chip_minus50))
      = Inr (temperature_of_raw 100 430 6120)"
    by (simp add: run_defs chip_minus50_def)
  have h: "(0::real) < 100 \<and> real_of_int 6120 / 32768 * 430 < (100::real)" by simp
  have v: "- 501 / 10 < poly5 (real_of_int 6120 / 32768 * 430 / 100 * 100)
     \<and> poly5 (real_of_int 6120 / 32768 * 430 / 100 * 100) < - 499 / 10"
    by (simp add: poly5_def power_divide)
  from getTemperature_two_branch[of 100 430 chip_transport "fresh chip_minus50" 6120] h
  have "temperature_of_raw 100 430 6120
          = Some (poly5 (real_of_int 6120 / 32768 * 430 / 100 * 100))
        \<and> (sqrt (rtdA\<^sup>2 - 4 * rtdB + 4 * rtdB * (real_of_int 6120 / 32768 * 430) / 100) - rtdA)
             / (2 * rtdB) < 0"
    by blast
  with rd h v show ?thesis by simp
qed

section \<open>The integrator of the PID controller\<close>

lemma clamp_ge_min: "0 \<le> m \<Longrightarrow> min m v \<le> clamp v (- m) m"
  by (auto simp: clamp_def)

lemma clamp_le_max: "0 \<le> m \<Longrightarrow> clamp v (- m) m \<le> max (- m) v"
  by (auto simp: clamp_def)

lemma getControllerResponse_state:
  "Ki (snd (snd (getControllerResponse T now c))) = Ki c"
  "Kp (snd (snd (getControllerResponse T now c))) = Kp c"
  "Kd (snd (snd (getControllerResponse T now c))) = Kd c"
  "maxIntegrator (snd (snd (getControllerResponse T now c))) = maxIntegrator c"
  "tempSetPoint (snd (snd (getControllerResponse T now c))) = tempSetPoint c"
  "lastTime (snd (snd (getControllerResponse T now c))) = now"
  "sumT (snd (snd (getControllerResponse T now c))) =
     clamp (sumT c + (T - tempSetPoint c) * real_of_int (now - lastTime c))
       (- maxIntegrator c) (maxIntegrator c)"
  by (simp_all add: getControllerResponse_def calculateIntegratorResponse_def Let_def)

lemma call_gains: "Ki (call c x) = Ki c \<and> maxIntegrator (call c x) = maxIntegrator c"
  by (cases x) (simp_all add: getControllerResponse_state setDesiredTemp_def)

lemma calls_gains: "Ki (calls cs c) = Ki c \<and> maxIntegrator (calls cs c) = maxIntegrator c"
  unfolding calls_def by (induction cs arbitrary: c) (simp_all add: call_gains)

lemma call_within_bound: "within_bound c \<Longrightarrow> within_bound (call c x)"
  by (cases x) (auto simp: within_bound_def getControllerResponse_state setDesiredTemp_def clamp_def)

lemma calls_within_bound: "within_bound c \<Longrightarrow> within_bound (calls cs c)"
  unfolding calls_def by (induction cs arbitrary: c) (simp_all add: call_within_bound)

lemma new_PIDController_bound:
  "new_PIDController pb ti td = Some c \<Longrightarrow>
     within_bound c \<and> maxIntegrator c = \<bar>0.5 / Ki c\<bar> \<and> 0 < maxIntegrator c"
  by (auto simp: new_PIDController_def within_bound_def Let_def abs_mult mult.commute
      split: if_splits)

lemma saturate:
  fixes m s e x :: real
  assumes "0 \<le> m" "- m \<le> s" "s \<le> m" "2 * m \<le> \<bar>e\<bar> * x" "e \<noteq> 0"
    and up: "0 \<le> e \<Longrightarrow> min m (s + e * x) \<le> f"
    and down: "e \<le> 0 \<Longrightarrow> f \<le> max (- m) (s + e * x)"
    and "- m \<le> f" "f \<le> m"
  shows "f = sgn e * m"
proof (cases "0 < e")
  case True
  then have "m \<le> s + e * x" using assms(2,4) by simp
  then have "m \<le> f" using up True by simp
  then show ?thesis using assms(9) True by simp
next
  case False
  then have e: "e < 0" using assms(5) by simp
  then have "s + e * x \<le> - m" using assms(3,4) by simp
  then have "f \<le> - m" using down e by simp
  then show ?thesis using assms(8) e by simp
qed

lemma min_chain:
  fixes m v s x :: real
  shows "min m v \<le> s \<Longrightarrow> 0 \<le> x \<Longrightarrow> min m (v + x) \<le> min m (s + x)"
  by linarith

lemma max_chain:
  fixes m v s x :: real
  shows "s \<le> max m v \<Longrightarrow> x \<le> 0 \<Longrightarrow> max m (s + x) \<le> max m (v + x)"
  by linarith

lemma sustained_up:
  assumes "0 \<le> maxIntegrator c" "0 \<le> T - tempSetPoint c"
    and "sorted (lastTime c # ts)" "ts \<noteq> []"
  shows "min (maxIntegrator c) (sumT c + (T - tempSetPoint c) * real_of_int (last ts - lastTime c))
          \<le> sumT (calls (map (GetControllerResponse T) ts) c)"
  using assms
proof (induction ts arbitrary: c)
  case Nil
  then show ?case by simp
next
  case (Cons t ts)
  define c1 where "c1 = call c (GetControllerResponse T t)"
  define e where "e = T - tempSetPoint c"
  define m where "m = maxIntegrator c"
  define v where "v = sumT c + e * real_of_int (t - lastTime c)"
  have c1: "sumT c1 = clamp v (- m) m" "lastTime c1 = t" "maxIntegrator c1 = m" "T - tempSetPoint c1 = e"
    by (simp_all add: c1_def v_def e_def m_def getControllerResponse_state)
  have m0: "0 \<le> m" and e0: "0 \<le> e" using Cons.prems(1,2) by (simp_all add: m_def e_def)
  have step: "calls (map (GetControllerResponse T) (t # ts)) c = calls (map (GetControllerResponse T) ts) c1"
    by (simp add: calls_def c1_def)
  have first: "min m v \<le> sumT c1" using clamp_ge_min[OF m0, of v] by (simp add: c1)
  show ?case
  proof (cases "ts = []")
    case True
    with first show ?thesis
      unfolding step by (simp add: calls_def v_def e_def m_def)
  next
    case False
    have srt: "sorted (lastTime c1 # ts)" using Cons.prems(3) by (simp add: c1)
    have IH: "min m (sumT c1 + e * real_of_int (last ts - t)) \<le> sumT (calls (map (GetControllerResponse T) ts) c1)"
      using Cons.IH[of c1] m0 e0 srt False by (simp add: c1)
    have tl: "t \<le> last ts" using Cons.prems(3) False by simp
    have x: "0 \<le> e * real_of_int (last ts - t)" using tl e0 by simp
    have split: "sumT c + e * real_of_int (last (t # ts) - lastTime c) = v + e * real_of_int (last ts - t)"
      using False by (simp add: v_def algebra_simps)
    have "min m (v + e * real_of_int (last ts - t)) \<le> min m (sumT c1 + e * real_of_int (last ts - t))"
      using first x by (rule min_chain)
    also note IH
    finally show ?thesis unfolding step split[symmetric] by (simp add: e_def m_def)
  qed
qed

lemma sustained_down:
  assumes "0 \<le> maxIntegrator c" "T - tempSetPoint c \<le> 0"
    and "sorted (lastTime c # ts)" "ts \<noteq> []"
  shows "sumT (calls (map (GetControllerResponse T) ts) c)
          \<le> max (- maxIntegrator c) (sumT c + (T - tempSetPoint c) * real_of_int (last ts - lastTime c))"
  using assms
proof (induction ts arbitrary: c)
  case Nil
  then show ?case by simp
next
  case (Cons t ts)
  define c1 where "c1 = call c (GetControllerResponse T t)"
  define e where "e = T - tempSetPoint c"
  define m where "m = maxIntegrator c"
  define v where "v = sumT c + e * real_of_int (t - lastTime c)"
  have c1: "sumT c1 = clamp v (- m) m" "lastTime c1 = t" "maxIntegrator c1 = m" "T - tempSetPoint c1 = e"
    by (simp_all add: c1_def v_def e_def m_def getControllerResponse_state)
  have m0: "0 \<le> m" and e0: "e \<le> 0" using Cons.prems(1,2) by (simp_all add: m_def e_def)
  have step: "calls (map (GetControllerResponse T) (t # ts)) c = calls (map (GetControllerResponse T) ts) c1"
    by (simp add: calls_def c1_def)
  have first: "sumT c1 \<le> max (- m) v" using clamp_le_max[OF m0, of v] by (simp add: c1)
  show ?case
  proof (cases "ts = []")
    case True
    with first show ?thesis
      unfolding step by (simp add: calls_def v_def e_def m_def)
  next
    case False
    have srt: "sorted (lastTime c1 # ts)" using Cons.prems(3) by (simp add: c1)
    have IH: "sumT (calls (map (GetControllerResponse T) ts) c1) \<le> max (- m) (sumT c1 + e * real_of_int (last ts - t))"
      using Cons.IH[of c1] m0 e0 srt False by (simp add: c1)
    have tl: "t \<le> last ts" using Cons.prems(3) False by simp
    have x: "e * real_of_int (last ts - t) \<le> 0" using tl e0 by (simp add: mult_le_0_iff)
    have split: "sumT c + e * real_of_int (last (t # ts) - lastTime c) = v + e * real_of_int (last ts - t)"
      using False by (simp add: v_def algebra_simps)
    note IH
    also have "max (- m) (sumT c1 + e * real_of_int (last ts - t)) \<le> max (- m) (v + e * real_of_int (last ts - t))"
      using first x by (rule max_chain)
    finally show ?thesis unfolding step split[symmetric] by (simp add: e_def m_def)
  qed
qed


text \<open>
  Claim C5. After any sequence of \<open>setDesiredTemp\<close> and \<open>getControllerResponse\<close>
  calls on a controller as constructed, \<open>maxIntegrator\<close> is \<open>\<bar>0.5 / Ki\<bar>\<close> and the
  stored sum lies between \<open>- maxIntegrator\<close> and \<open>maxIntegrator\<close>. A response stores
  the clamped value of sum plus error times \<open>dt\<close>, a new setpoint stores 0. With the same
  temperature on every tick, the ticks not going back in time, the sum is exactly
  \<open>maxIntegrator\<close> with the sign of the error once the error times the time elapsed
  has reached twice the bound.
\<close>

theorem integratorSum_clamped:
  assumes "new_PIDController pb ti td = Some c0"
  shows "let c = calls cs c0; m = maxIntegrator c in
     m = \<bar>0.5 / Ki c\<bar> \<and> - m \<le> sumT c \<and> sumT c \<le> m
     \<and> sumT (call c (SetDesiredTemp T)) = 0
     \<and> sumT (call c (GetControllerResponse T now))
         = clamp (sumT c + (T - tempSetPoint c) * real_of_int (now - lastTime c)) (- m) m
     \<and> (T \<noteq> tempSetPoint c \<and> ts \<noteq> [] \<and> sorted (lastTime c # ts)
          \<and> 2 * m \<le> \<bar>T - tempSetPoint c\<bar> * real_of_int (last ts - lastTime c)
        \<longrightarrow> sumT (calls (map (GetControllerResponse T) ts) c) = sgn (T - tempSetPoint c) * m)"
proof -
  define c where "c = calls cs c0"
  define m where "m = maxIntegrator c"
  from new_PIDController_bound[OF assms] have b0: "within_bound c0"
    and m0: "maxIntegrator c0 = \<bar>0.5 / Ki c0\<bar>" by simp_all
  have wb: "within_bound c" unfolding c_def using b0 by (rule calls_within_bound)
  have g: "Ki c = Ki c0" "maxIntegrator c = maxIntegrator c0"
    unfolding c_def using calls_gains[of cs c0] by simp_all
  have 1: "m = \<bar>0.5 / Ki c\<bar>" using m0 g by (simp add: m_def)
  have 2: "0 \<le> m" "- m \<le> sumT c" "sumT c \<le> m" using wb by (simp_all add: within_bound_def m_def)
  have 3: "sumT (call c (SetDesiredTemp T)) = 0" by (simp add: setDesiredTemp_def)
  have 4: "sumT (call c (GetControllerResponse T now))
         = clamp (sumT c + (T - tempSetPoint c) * real_of_int (now - lastTime c)) (- m) m"
    by (simp add: getControllerResponse_state m_def)
  have 5: "sumT (calls (map (GetControllerResponse T) ts) c) = sgn (T - tempSetPoint c) * m"
    if h: "T \<noteq> tempSetPoint c \<and> ts \<noteq> [] \<and> sorted (lastTime c # ts)
          \<and> 2 * m \<le> \<bar>T - tempSetPoint c\<bar> * real_of_int (last ts - lastTime c)"
  proof -
    define f where "f = sumT (calls (map (GetControllerResponse T) ts) c)"
    have wbf: "within_bound (calls (map (GetControllerResponse T) ts) c)"
      using wb by (rule calls_within_bound)
    have mf: "maxIntegrator (calls (map (GetControllerResponse T) ts) c) = m"
      using calls_gains[of "map (GetControllerResponse T) ts" c] by (simp add: m_def)
    have fb: "- m \<le> f" "f \<le> m" using wbf mf by (simp_all add: within_bound_def f_def)
    have up: "min m (sumT c + (T - tempSetPoint c) * real_of_int (last ts - lastTime c)) \<le> f"
      if "0 \<le> T - tempSetPoint c"
      unfolding f_def m_def using sustained_up[of c T ts] 2(1) that h by (simp add: m_def)
    have down: "f \<le> max (- m) (sumT c + (T - tempSetPoint c) * real_of_int (last ts - lastTime c))"
      if "T - tempSetPoint c \<le> 0"
      unfolding f_def m_def using sustained_down[of c T ts] 2(1) that h by (simp add: m_def)
    have "f = sgn (T - tempSetPoint c) * m"
      using 2(1) 2(2) 2(3) _ _ up down fb
      by (rule saturate) (use h in simp_all)
    then show ?thesis by (simp add: f_def)
  qed
  show ?thesis
    unfolding Let_def c_def[symmetric] m_def[symmetric]
    using 1 2 3 4 5 by blast
qed

text \<open>
  The controller of \<open>pb = 50\<close>, \<open>ti = 100\<close>, \<open>td = 10\<close> has the bound 2500. With
  the setpoint 100 and the temperature 110 on three ticks one second apart, the sum is
  2500.
\<close>

theorem integratorSum_clamped_witness:
  "new_PIDController 50 100 10 = Some pid_example
   \<and> (110::real) \<noteq> tempSetPoint (calls [SetDesiredTemp 100] pid_example)
   \<and> [1000, 2000, 3000::int] \<noteq> []
   \<and> sorted (lastTime (calls [SetDesiredTemp 100] pid_example) # [1000, 2000, 3000])
   \<and> 2 * maxIntegrator (calls [SetDesiredTemp 100] pid_example)
        \<le> \<bar>110 - tempSetPoint (calls [SetDesiredTemp 100] pid_example)\<bar>
            * real_of_int (last [1000, 2000, 3000] - lastTime (calls [SetDesiredTemp 100] pid_example))
   \<and> maxIntegrator (calls [SetDesiredTemp 100] pid_example) = 2500
   \<and> sumT (calls (map (GetControllerResponse 110) [1000, 2000, 3000])
                   (calls [SetDesiredTemp 100] pid_example)) = 2500"
proof -
  have h: "new_PIDController 50 100 10 = Some pid_example"
    by (simp add: new_PIDController_def pid_example_def Let_def)
  have c: "calls [SetDesiredTemp 100] pid_example = pid_example\<lparr>tempSetPoint := 100\<rparr>"
    by (simp add: calls_def setDesiredTemp_def pid_example_def)
  have p: "(110::real) \<noteq> tempSetPoint (calls [SetDesiredTemp 100] pid_example)
   \<and> [1000, 2000, 3000::int] \<noteq> []
   \<and> sorted (lastTime (calls [SetDesiredTemp 100] pid_example) # [1000, 2000, 3000])
   \<and> 2 * maxIntegrator (calls [SetDesiredTemp 100] pid_example)
        \<le> \<bar>110 - tempSetPoint (calls [SetDesiredTemp 100] pid_example)\<bar>
            * real_of_int (last [1000, 2000, 3000] - lastTime (calls [SetDesiredTemp 100] pid_example))"
    unfolding c by (simp add: pid_example_def)
  have m: "maxIntegrator (calls [SetDesiredTemp 100] pid_example) = 2500"
    unfolding c by (simp add: pid_example_def)
  have s: "sgn (110 - tempSetPoint (calls [SetDesiredTemp 100] pid_example)) = (1::real)"
    unfolding c by (simp add: pid_example_def)
  from integratorSum_clamped[OF h, where cs = "[SetDesiredTemp 100]" and T = 110
      and ts = "[1000, 2000, 3000]", unfolded Let_def] p
  have "sumT (calls (map (GetControllerResponse 110) [1000, 2000, 3000])
                   (calls [SetDesiredTemp 100] pid_example))
     = sgn (110 - tempSetPoint (calls [SetDesiredTemp 100] pid_example))
        * maxIntegrator (calls [SetDesiredTemp 100] pid_example)"
    by blast
  then have "sumT (calls (map (GetControllerResponse 110) [1000, 2000, 3000])
                   (calls [SetDesiredTemp 100] pid_example)) = 2500"
    unfolding s m by simp
  with h p m show ?thesis by blast
qed

section \<open>The first response after a new setpoint\<close>

text \<open>
  Claim C4, as stated. On the controller of \<open>pb = 50\<close>, \<open>ti = 100\<close>, \<open>td = 10\<close>,
  the first response after \<open>setDesiredTemp 100\<close>, for the temperature 110 at the clock
  reading 1700000000000, has the integral term \<open>- 1 / 2\<close>, the whole of its range,
  and a derivative term that is not zero: \<open>dt\<close> is the clock reading itself, and
  neither term is suppressed.
\<close>

theorem first_response_not_suppressed:
  "new_PIDController 50 100 10 = Some pid_example
   \<and> getControllerResponse 110 1700000000000 (setDesiredTemp 100 pid_example) =
       (Some (- 2 / 10 - 2 / 1700000000000),
        \<lparr>data_error = 10, data_target = 100, data_current = 110, data_P = 3 / 10,
         data_I = - 1 / 2, data_D = Some (- 2 / 1700000000000)\<rparr>,
        pid_example\<lparr>tempSetPoint := 100, lastTime := 1700000000000, sumT := 2500\<rparr>)"
  by (simp add: new_PIDController_def pid_example_def Let_def setDesiredTemp_def
      getControllerResponse_def calculateIntegratorResponse_def calculateDerivativeResponse_def
      calculateProportionalResponse_def clamp_def)

text \<open>
  Claim C4, amended. \<open>setDesiredTemp T\<close> stores the setpoint \<open>T\<close>, the sum 0 and
  the sample time 0. The response that follows, at the clock reading \<open>now\<close>, takes
  \<open>dt = now\<close>: its integral term is \<open>Ki\<close> times the clamped \<open>error * now\<close>,
  which becomes the stored sum; its derivative term is \<open>Kd * error / now\<close>, and is
  not a number when \<open>now = 0\<close>. Nothing of the sum or the sample time from before
  the new setpoint enters.
\<close>

theorem first_response_after_setDesiredTemp:
  "(let c1 = setDesiredTemp T c;
        (u, d, c2) = getControllerResponse T' now c1;
        I = clamp ((T' - T) * real_of_int now) (- maxIntegrator c) (maxIntegrator c)
    in tempSetPoint c1 = T \<and> sumT c1 = 0 \<and> lastTime c1 = 0
       \<and> data_error d = T' - T
       \<and> data_P d = Kp c * (T' - T) + 0.5
       \<and> data_I d = Ki c * I
       \<and> data_D d = (if now = 0 then None else Some (Kd c * ((T' - T) / real_of_int now)))
       \<and> u = map_option (\<lambda>D. data_P d + data_I d + D) (data_D d)
       \<and> sumT c2 = I \<and> lastTime c2 = now \<and> tempSetPoint c2 = T)"
  by (simp add: Let_def setDesiredTemp_def
      getControllerResponse_def calculateIntegratorResponse_def calculateDerivativeResponse_def
      calculateProportionalResponse_def)


section \<open>The timer loop of the actuators\<close>

lemmas switch_defs =
  new_TimedSwitchDevice_def setTimeout_def clearTimeout_def setToggledTime_def stop_def
  start_def resetCallbackLoop_def setOnCycleTime_def setOffCycleTime_def turnOn_def
  turnOff_def fn_def fire_def Let_def

lemma fire_nothing_pending: "timeouts s = [] \<Longrightarrow> fire now s = None"
  by (simp add: fire_def)

lemma started_resetCallbackLoop: "started (resetCallbackLoop now s)"
  by (cases "toggleCallbackID s") (simp_all add: switch_defs)

lemma fn_ignores_stopAfterNext: "started s \<Longrightarrow> fn captured now s = fn False now s"
  by (simp add: fn_def Let_def turnOn_def turnOff_def start_def started_resetCallbackLoop)

lemma never_auto_on:
  "offCycleTime s = PositiveInfinity \<Longrightarrow> \<not> isOn s \<Longrightarrow> \<not> isOn (fn captured now s)"
  by (simp add: fn_def start_def setTimeout_def Let_def)

lemma quiet_check:
  assumes "started s"
    and "\<not> exceeds (now - toggledTime s) (if isOn s then onCycleTime s else offCycleTime s)"
  shows "fn captured now s = s"
  using assms by (simp add: fn_def Let_def start_def split: if_splits)

text \<open>
  Claim C3. The loop should wake again and again until \<open>stop\<close>, and with
  \<open>stopAfterNext\<close> only once. In the code a wake arms the next one only when it has
  flipped the output, whatever \<open>stopAfterNext\<close> is. An actuator of 1 s on and 2 s off,
  started at 1000000 without the flag: the wake at 1000500 turns it on, the wake at
  1001000 finds nothing to flip and arms nothing; from then on no timeout is pending,
  \<open>stop\<close> was never called, the output is on and stays on (no wake at 1002001, and
  another \<open>start\<close> does nothing). Started with the flag instead, the wake at 1000500
  turns it on and a second wake is armed for 1001000.
\<close>

theorem timer_loop_ends_after_quiet_check:
  "Option.bind (fire 1000500 (start False 1000000 duty_example)) (fire 1001000) =
     Some \<lparr>isOn = True, toggledTime = 1000500, started = True, interruptInterval = 500,
           toggleCallbackID = Some 2, onCycleTime = Finite 1000, offCycleTime = Finite 2000,
           emitted = [EmitOn], timeouts = [], nextTimeoutID = 3\<rparr>
   \<and> fire 1002001
        \<lparr>isOn = True, toggledTime = 1000500, started = True, interruptInterval = 500,
         toggleCallbackID = Some 2, onCycleTime = Finite 1000, offCycleTime = Finite 2000,
         emitted = [EmitOn], timeouts = [], nextTimeoutID = 3\<rparr> = None
   \<and> start False 1002001
        \<lparr>isOn = True, toggledTime = 1000500, started = True, interruptInterval = 500,
         toggleCallbackID = Some 2, onCycleTime = Finite 1000, offCycleTime = Finite 2000,
         emitted = [EmitOn], timeouts = [], nextTimeoutID = 3\<rparr> =
        \<lparr>isOn = True, toggledTime = 1000500, started = True, interruptInterval = 500,
         toggleCallbackID = Some 2, onCycleTime = Finite 1000, offCycleTime = Finite 2000,
         emitted = [EmitOn], timeouts = [], nextTimeoutID = 3\<rparr>
   \<and> fire 1000500 (start True 1000000 duty_example) =
     Some \<lparr>isOn = True, toggledTime = 1000500, started = True, interruptInterval = 500,
           toggleCallbackID = Some 2, onCycleTime = Finite 1000, offCycleTime = Finite 2000,
           emitted = [EmitOn],
           timeouts = [\<lparr>timeout_id = 2, due = 1001000, stopAfterNext = False\<rparr>],
           nextTimeoutID = 3\<rparr>"
  by (simp add: switch_defs duty_example_def)

lemmas latched_defs =
  new_LatchedSwitchDevice_def latched_isOn_def latched_turnOn_def latched_fire_def

text \<open>
  Claim C9. A latched actuator of 5 s, turned on at 1000000: the one wake, at 1000500,
  finds 500 ms elapsed, flips nothing and arms nothing. The output is on, no timeout is
  pending, and at 1005001 nothing wakes: it is never turned off.
\<close>

theorem latched_stays_on:
  "latched_fire 1000500 (latched_turnOn 1000000 latched_example) =
     Some \<lparr>timedDevice =
       \<lparr>isOn = True, toggledTime = 1000000, started = True, interruptInterval = 500,
        toggleCallbackID = Some 1, onCycleTime = Finite 5000, offCycleTime = PositiveInfinity,
        emitted = [EmitOn], timeouts = [], nextTimeoutID = 2\<rparr>\<rparr>
   \<and> latched_fire 1005001
       \<lparr>timedDevice =
       \<lparr>isOn = True, toggledTime = 1000000, started = True, interruptInterval = 500,
        toggleCallbackID = Some 1, onCycleTime = Finite 5000, offCycleTime = PositiveInfinity,
        emitted = [EmitOn], timeouts = [], nextTimeoutID = 2\<rparr>\<rparr> = None
   \<and> latched_isOn
       \<lparr>timedDevice =
       \<lparr>isOn = True, toggledTime = 1000000, started = True, interruptInterval = 500,
        toggleCallbackID = Some 1, onCycleTime = Finite 5000, offCycleTime = PositiveInfinity,
        emitted = [EmitOn], timeouts = [], nextTimeoutID = 2\<rparr>\<rparr>"
  by (simp add: switch_defs latched_defs latched_example_def)

text \<open>
  Claim C10. Either setter stores the new duration and restarts the loop: the timeout
  whose id the device holds is cancelled and one is armed at \<open>now\<close> plus the polling
  interval. The output, the time of the last toggle, the other duration and the events
  emitted are as before.
\<close>

theorem setCycleTime_frame:
  "(let s' = setOnCycleTime time now s
    in onCycleTime s' = time \<and> offCycleTime s' = offCycleTime s \<and> isOn s' = isOn s
       \<and> toggledTime s' = toggledTime s \<and> emitted s' = emitted s
       \<and> interruptInterval s' = interruptInterval s \<and> started s'
       \<and> timeouts s' =
           filter (\<lambda>t. Some (timeout_id t) \<noteq> toggleCallbackID s) (timeouts s)
           @ [\<lparr>timeout_id = nextTimeoutID s, due = now + interruptInterval s,
               stopAfterNext = False\<rparr>])
   \<and> (let s' = setOffCycleTime time now s
      in offCycleTime s' = time \<and> onCycleTime s' = onCycleTime s \<and> isOn s' = isOn s
         \<and> toggledTime s' = toggledTime s \<and> emitted s' = emitted s
         \<and> interruptInterval s' = interruptInterval s \<and> started s'
         \<and> timeouts s' =
             filter (\<lambda>t. Some (timeout_id t) \<noteq> toggleCallbackID s) (timeouts s)
             @ [\<lparr>timeout_id = nextTimeoutID s, due = now + interruptInterval s,
                 stopAfterNext = False\<rparr>])"
  by (cases "toggleCallbackID s") (simp_all add: switch_defs)

section \<open>State requests of the appliance controller\<close>

text \<open>
  Claim C8, as stated. From the initial state \<open>Off\<close> the request for \<open>Hold\<close>, which
  is not among the allowed transitions, returns normally and changes nothing; so does the
  request for \<open>Off\<close> on a controller whose machine is in \<open>Smoke\<close>.
\<close>

theorem setState_accepts_every_request:
  "setState Hold (new_Traeger config_example) = Inr (new_Traeger config_example)
   \<and> currentState (fsm (new_Traeger config_example)) = Off
   \<and> (Off, Hold) \<notin> set spec_allowed
   \<and> setState Off ((new_Traeger config_example)
        \<lparr>fsm := (fsm (new_Traeger config_example))\<lparr>currentState := Smoke\<rparr>\<rparr>)
      = Inr ((new_Traeger config_example)
        \<lparr>fsm := (fsm (new_Traeger config_example))\<lparr>currentState := Smoke\<rparr>\<rparr>)
   \<and> (Smoke, Off) \<notin> set spec_allowed"
  by (simp add: setState_def new_Traeger_def new_FiniteStateMachine_def from_to_def
      spec_allowed_def)

lemma setStates_id: "setStates requests t = Inr t"
  by (induction requests) (simp_all add: setState_def)

text \<open>
  Claim C8, amended. Every sequence of \<open>setState\<close> requests returns normally and
  leaves the controller as it was. The machine the constructor builds is in \<open>Off\<close> and
  has the transitions \<open>Off\<close> to \<open>Start\<close>, \<open>Start\<close> to \<open>Hold\<close> and \<open>Start\<close>
  to \<open>Smoke\<close>.
\<close>

theorem setState_no_effect:
  "setStates requests t = Inr t
   \<and> currentState (fsm (new_Traeger config)) = Off
   \<and> transitions (fsm (new_Traeger config)) = [(Off, Start), (Start, Hold), (Start, Smoke)]"
  by (simp add: setStates_id new_Traeger_def new_FiniteStateMachine_def from_to_def)


end
